theory Spec2Isabelle
  imports Complex_Main "HOL-Library.Sublist" "HOL-Library.Multiset"
begin

section \<open>The JavaScript operations the pages use\<close>

text \<open>
  The three list pages (\<^verbatim>\<open>DigitalIds.tsx\<close>, \<^verbatim>\<open>Alerts.tsx\<close> and the E-FIR page) filter a
  constant array of records with \<^verbatim>\<open>Array.prototype.filter\<close>, count with
  \<^verbatim>\<open>.filter(...).length.toString()\<close>, and look badge treatments up in object literals.
  This section models those operations of the language.

  TypeScript's types are erased when the page runs. A field read by the filter callbacks is
  therefore a runtime value: a string, or \<^verbatim>\<open>undefined\<close> (the field is absent), or
  \<^verbatim>\<open>null\<close>.
\<close>

datatype jsval = JUndefined | JNull | JString string

datatype js_error = TypeError

fun isString :: "jsval \<Rightarrow> bool" where
  "isString (JString s) = True"
| "isString JUndefined = False"
| "isString JNull = False"

text \<open>
  \<^verbatim>\<open>a === b\<close> on these values never throws and is true exactly when both are the same
  string, both \<^verbatim>\<open>undefined\<close> or both \<^verbatim>\<open>null\<close>: it is HOL's equality on \<^typ>\<open>jsval\<close>.

  \<^verbatim>\<open>String.prototype.toLowerCase\<close>: strings are modelled as lists of ASCII characters, on
  which lowercasing maps \<^verbatim>\<open>A-Z\<close> to \<^verbatim>\<open>a-z\<close> and leaves every other character alone.
\<close>

definition toLowerChar :: "char \<Rightarrow> char" where
  "toLowerChar c =
     (case map_of (zip ''ABCDEFGHIJKLMNOPQRSTUVWXYZ'' ''abcdefghijklmnopqrstuvwxyz'') c of
        Some l \<Rightarrow> l
      | None \<Rightarrow> c)"

definition toLowerCase :: "string \<Rightarrow> string" where
  "toLowerCase s = map toLowerChar s"

text \<open>
  \<^verbatim>\<open>v.toLowerCase()\<close> on a runtime value: reading a property of \<^verbatim>\<open>undefined\<close> or
  \<^verbatim>\<open>null\<close> throws a TypeError.
\<close>

fun call_toLowerCase :: "jsval \<Rightarrow> js_error + string" where
  "call_toLowerCase (JString s) = Inr (toLowerCase s)"
| "call_toLowerCase JUndefined = Inl TypeError"
| "call_toLowerCase JNull = Inl TypeError"

text \<open>
  \<^verbatim>\<open>s.includes(t)\<close>: does \<^verbatim>\<open>t\<close> occur in \<^verbatim>\<open>s\<close> at some position? \<open>startsWith\<close>
  compares at the current position, \<open>String_includes\<close> tries every position from the left.
\<close>

fun startsWith :: "string \<Rightarrow> string \<Rightarrow> bool" where
  "startsWith s [] = True"
| "startsWith [] (d # t) = False"
| "startsWith (c # s) (d # t) = (c = d \<and> startsWith s t)"

fun String_includes :: "string \<Rightarrow> string \<Rightarrow> bool" where
  "String_includes [] t = startsWith [] t"
| "String_includes (c # s) t = (startsWith (c # s) t \<or> String_includes s t)"

text \<open>
  \<^verbatim>\<open>xs.filter(cb)\<close>: the callback runs on every element from left to right, the elements
  for which it returns true are kept in order, and an exception thrown by the callback
  ends the whole call.
\<close>

fun Array_filter :: "('a \<Rightarrow> js_error + bool) \<Rightarrow> 'a list \<Rightarrow> js_error + 'a list" where
  "Array_filter cb [] = Inr []"
| "Array_filter cb (x # xs) =
     (case cb x of
        Inl e \<Rightarrow> Inl e
      | Inr keep \<Rightarrow>
          (case Array_filter cb xs of
             Inl e \<Rightarrow> Inl e
           | Inr ys \<Rightarrow> Inr (if keep then x # ys else ys)))"

text \<open>
  \<^verbatim>\<open>n.toString()\<close> and \<^verbatim>\<open>String(n)\<close> for a non-negative integer: its decimal digits,
  most significant first. \<^verbatim>\<open>s.padStart(n, c)\<close> with a one-character pad: \<^verbatim>\<open>c\<close> is
  repeated on the left until the length is \<^verbatim>\<open>n\<close>; a longer string is returned as it is.
\<close>

definition digitChar :: "nat \<Rightarrow> char" where
  "digitChar d = ''0123456789'' ! (d mod 10)"

fun Number_toString :: "nat \<Rightarrow> string" where
  "Number_toString n =
     (if n < 10 then [digitChar n] else Number_toString (n div 10) @ [digitChar (n mod 10)])"

declare Number_toString.simps [simp del]

definition padStart :: "nat \<Rightarrow> char \<Rightarrow> string \<Rightarrow> string" where
  "padStart n c s = replicate (n - length s) c @ s"

section \<open>Digital ID records (\<^verbatim>\<open>src/pages/DigitalIds.tsx\<close>)\<close>

record TouristRecord =
  id :: string
  name :: jsval
  digitalId :: jsval
  nationality :: jsval
  itinerary :: "string list"
  emergencyContact :: string
  status :: jsval
  lastSeen :: string
  location :: string

definition mockTouristData :: "TouristRecord list" where
  "mockTouristData =
   [ \<lparr> TouristRecord.id = ''1'', name = JString ''John Smith'',
       digitalId = JString ''TID-2024-001'', nationality = JString ''USA'',
       itinerary = [''Red Fort'', ''India Gate'', ''Qutub Minar''],
       emergencyContact = ''+1-555-0123'', status = JString ''active'',
       lastSeen = ''2 mins ago'', location = ''Red Fort Area'' \<rparr>,
     \<lparr> TouristRecord.id = ''2'', name = JString ''Marie Dubois'',
       digitalId = JString ''TID-2024-002'', nationality = JString ''France'',
       itinerary = [''Lotus Temple'', ''Humayun Tomb''],
       emergencyContact = ''+33-1-4567-8901'', status = JString ''active'',
       lastSeen = ''15 mins ago'', location = ''Lotus Temple'' \<rparr>,
     \<lparr> TouristRecord.id = ''3'', name = JString ''Hiroshi Tanaka'',
       digitalId = JString ''TID-2024-003'', nationality = JString ''Japan'',
       itinerary = [''India Gate'', ''Red Fort'', ''Chandni Chowk''],
       emergencyContact = ''+81-3-1234-5678'', status = JString ''alert'',
       lastSeen = ''1 hour ago'', location = ''Chandni Chowk'' \<rparr>,
     \<lparr> TouristRecord.id = ''4'', name = JString ''Emma Wilson'',
       digitalId = JString ''TID-2024-004'', nationality = JString ''UK'',
       itinerary = [''Qutub Minar'', ''Lodhi Gardens''],
       emergencyContact = ''+44-20-7123-4567'', status = JString ''inactive'',
       lastSeen = ''3 hours ago'', location = ''Lodhi Gardens'' \<rparr> ]"

text \<open>
  The values of the \<^verbatim>\<open>status\<close> union type of the interface, which are also the
  concrete choices of the status select.
\<close>

definition TouristStatus :: "string list" where
  "TouristStatus = [''active'', ''inactive'', ''alert'']"

text \<open>
  The interface declares \<^verbatim>\<open>name\<close> and \<^verbatim>\<open>digitalId\<close> as strings; the callback calls a
  method on both.
\<close>

definition conforms :: "TouristRecord \<Rightarrow> bool" where
  "conforms r = (isString (name r) \<and> isString (digitalId r))"

text \<open>
  The three constants of the filter callback, in the order the callback evaluates them.
  \<^verbatim>\<open>||\<close> evaluates its right operand only when the left one is false, so
  \<^verbatim>\<open>record.digitalId.toLowerCase()\<close> runs only when the name does not contain the term.
\<close>

definition matchesSearch :: "string \<Rightarrow> TouristRecord \<Rightarrow> js_error + bool" where
  "matchesSearch searchTerm r =
     (case call_toLowerCase (name r) of
        Inl e \<Rightarrow> Inl e
      | Inr n \<Rightarrow>
          if String_includes n (toLowerCase searchTerm) then Inr True
          else (case call_toLowerCase (digitalId r) of
                  Inl e \<Rightarrow> Inl e
                | Inr d \<Rightarrow> Inr (String_includes d (toLowerCase searchTerm))))"

definition matchesStatus :: "string \<Rightarrow> TouristRecord \<Rightarrow> bool" where
  "matchesStatus statusFilter r =
     (statusFilter = ''all'' \<or> TouristRecord.status r = JString statusFilter)"

definition matchesNationality :: "string \<Rightarrow> TouristRecord \<Rightarrow> bool" where
  "matchesNationality nationalityFilter r =
     (nationalityFilter = ''all'' \<or> nationality r = JString nationalityFilter)"

definition filteredData_callback ::
  "string \<Rightarrow> string \<Rightarrow> string \<Rightarrow> TouristRecord \<Rightarrow> js_error + bool" where
  "filteredData_callback searchTerm statusFilter nationalityFilter r =
     (case matchesSearch searchTerm r of
        Inl e \<Rightarrow> Inl e
      | Inr ms \<Rightarrow>
          Inr (ms \<and> matchesStatus statusFilter r \<and> matchesNationality nationalityFilter r))"

definition filteredData ::
  "TouristRecord list \<Rightarrow> string \<Rightarrow> string \<Rightarrow> string \<Rightarrow> js_error + TouristRecord list" where
  "filteredData data searchTerm statusFilter nationalityFilter =
     Array_filter (filteredData_callback searchTerm statusFilter nationalityFilter) data"

text \<open>
  A callback made of \<^verbatim>\<open>===\<close>, \<^verbatim>\<open>||\<close> and \<^verbatim>\<open>&&\<close> only cannot throw. For such a
  callback \<^verbatim>\<open>xs.filter(cb)\<close> is HOL's \<^const>\<open>filter\<close> (lemma \<open>Array_filter_pure\<close>
  below), which is how the statistics and the filters of the other two pages are written.

  The statistics tiles: an array of label and value, every value a count turned into a
  string. \<^verbatim>\<open>new Set(xs).size\<close> is the number of distinct elements of \<^verbatim>\<open>xs\<close>.
\<close>

definition DigitalIds_stats :: "TouristRecord list \<Rightarrow> (string \<times> string) list" where
  "DigitalIds_stats data =
   [ (''Total Records'', Number_toString (length data)),
     (''Active Tourists'',
        Number_toString (length (filter (\<lambda>r. TouristRecord.status r = JString ''active'') data))),
     (''Alert Status'',
        Number_toString (length (filter (\<lambda>r. TouristRecord.status r = JString ''alert'') data))),
     (''Nationalities'', Number_toString (length (remdups (map nationality data)))) ]"

text \<open>
  What a page hands to its markup: the rows of the table and the statistics tiles. The
  component body computes the rows first, so an exception there ends the render.
\<close>

record 'a view =
  rows :: "'a list"
  tiles :: "(string \<times> string) list"

definition DigitalIds ::
  "TouristRecord list \<Rightarrow> string \<Rightarrow> string \<Rightarrow> string \<Rightarrow> js_error + TouristRecord view" where
  "DigitalIds data searchTerm statusFilter nationalityFilter =
     (case filteredData data searchTerm statusFilter nationalityFilter of
        Inl e \<Rightarrow> Inl e
      | Inr shown \<Rightarrow> Inr \<lparr> rows = shown, tiles = DigitalIds_stats data \<rparr>)"

subsection \<open>Badge lookup\<close>

text \<open>
  \<^verbatim>\<open>variants[status] || variants.active\<close> reads a property of an object literal. A
  property read finds the object's own properties first and then those it inherits from
  \<^verbatim>\<open>Object.prototype\<close>; only when neither has the key is the result
  \<^verbatim>\<open>undefined\<close>. The names below are the properties of \<^verbatim>\<open>Object.prototype\<close> in a
  browser; each holds a function (\<^verbatim>\<open>__proto__\<close>: the prototype object), hence a truthy
  value that \<^verbatim>\<open>||\<close> returns as it is.
\<close>

record BadgeTreatment =
  variant :: string
  className :: string

datatype property = Treatment BadgeTreatment | PrototypeMember string | Undefined

definition ObjectPrototype_keys :: "string list" where
  "ObjectPrototype_keys =
   [ ''constructor'', ''hasOwnProperty'', ''isPrototypeOf'', ''propertyIsEnumerable'',
     ''toLocaleString'', ''toString'', ''valueOf'', ''__proto__'',
     ''__defineGetter__'', ''__defineSetter__'', ''__lookupGetter__'', ''__lookupSetter__'' ]"

definition getProperty :: "(string \<times> BadgeTreatment) list \<Rightarrow> string \<Rightarrow> property" where
  "getProperty own key =
     (case map_of own key of
        Some t \<Rightarrow> Treatment t
      | None \<Rightarrow> if key \<in> set ObjectPrototype_keys then PrototypeMember key else Undefined)"

definition or_else :: "property \<Rightarrow> property \<Rightarrow> property" where
  "or_else a b = (if a = Undefined then b else a)"

definition DigitalIds_variants :: "(string \<times> BadgeTreatment) list" where
  "DigitalIds_variants =
   [ (''active'', \<lparr> variant = ''default'', className = ''bg-success text-success-foreground'' \<rparr>),
     (''inactive'', \<lparr> variant = ''secondary'', className = [] \<rparr>),
     (''alert'', \<lparr> variant = ''destructive'', className = [] \<rparr>) ]"

definition DigitalIds_getStatusBadge :: "string \<Rightarrow> property" where
  "DigitalIds_getStatusBadge status' =
     or_else (getProperty DigitalIds_variants status') (getProperty DigitalIds_variants ''active'')"

section \<open>Alerts (\<^verbatim>\<open>src/pages/Alerts.tsx\<close>)\<close>

record Alert =
  id :: string
  touristId :: string
  touristName :: string
  alertType :: string
  timestamp :: string
  status :: jsval
  location :: "real \<times> real"
  description :: string
  priority :: jsval

definition mockAlerts :: "Alert list" where
  "mockAlerts =
   [ \<lparr> Alert.id = ''1'', touristId = ''TID-2024-003'', touristName = ''Hiroshi Tanaka'',
       alertType = ''geo-fence'', timestamp = ''2024-01-15 14:30:00'',
       status = JString ''active'', location = (28.6562, 77.2410),
       description = ''Tourist entered restricted area near Red Fort'',
       priority = JString ''high'' \<rparr>,
     \<lparr> Alert.id = ''2'', touristId = ''TID-2024-001'', touristName = ''John Smith'',
       alertType = ''panic'', timestamp = ''2024-01-15 13:15:00'',
       status = JString ''investigating'', location = (28.6139, 77.2090),
       description = ''Emergency button pressed by tourist'',
       priority = JString ''high'' \<rparr>,
     \<lparr> Alert.id = ''3'', touristId = ''TID-2024-002'', touristName = ''Marie Dubois'',
       alertType = ''anomaly'', timestamp = ''2024-01-15 12:45:00'',
       status = JString ''resolved'', location = (28.5562, 77.1000),
       description = ''Unusual movement pattern detected'',
       priority = JString ''medium'' \<rparr> ]"

definition AlertStatus :: "string list" where
  "AlertStatus = [''active'', ''resolved'', ''investigating'']"

definition Priority :: "string list" where
  "Priority = [''high'', ''medium'', ''low'']"

definition filteredAlerts :: "Alert list \<Rightarrow> string \<Rightarrow> string \<Rightarrow> Alert list" where
  "filteredAlerts data statusFilter priorityFilter =
     filter (\<lambda>alert.
        (statusFilter = ''all'' \<or> Alert.status alert = JString statusFilter) \<and>
        (priorityFilter = ''all'' \<or> Alert.priority alert = JString priorityFilter)) data"

text \<open>The tiles of this page count in \<^verbatim>\<open>filteredAlerts\<close>, the rows of the table.\<close>

definition Alerts_stats :: "Alert list \<Rightarrow> (string \<times> string) list" where
  "Alerts_stats shown =
   [ (''Active Alerts'',
        Number_toString (length (filter (\<lambda>a. Alert.status a = JString ''active'') shown))),
     (''High Priority'',
        Number_toString (length (filter (\<lambda>a. Alert.priority a = JString ''high'') shown))),
     (''Under Investigation'',
        Number_toString (length (filter (\<lambda>a. Alert.status a = JString ''investigating'') shown))),
     (''Resolved Today'',
        Number_toString (length (filter (\<lambda>a. Alert.status a = JString ''resolved'') shown))) ]"

definition Alerts :: "Alert list \<Rightarrow> string \<Rightarrow> string \<Rightarrow> Alert view" where
  "Alerts data statusFilter priorityFilter =
     \<lparr> rows = filteredAlerts data statusFilter priorityFilter,
       tiles = Alerts_stats (filteredAlerts data statusFilter priorityFilter) \<rparr>"

definition Alerts_status_variants :: "(string \<times> BadgeTreatment) list" where
  "Alerts_status_variants =
   [ (''active'', \<lparr> variant = ''destructive'', className = [] \<rparr>),
     (''investigating'', \<lparr> variant = ''default'', className = ''bg-warning text-warning-foreground'' \<rparr>),
     (''resolved'', \<lparr> variant = ''default'', className = ''bg-success text-success-foreground'' \<rparr>) ]"

definition Alerts_getStatusBadge :: "string \<Rightarrow> property" where
  "Alerts_getStatusBadge status' =
     or_else (getProperty Alerts_status_variants status')
       (getProperty Alerts_status_variants ''active'')"

definition Alerts_priority_variants :: "(string \<times> BadgeTreatment) list" where
  "Alerts_priority_variants =
   [ (''high'', \<lparr> variant = ''destructive'', className = [] \<rparr>),
     (''medium'', \<lparr> variant = ''default'', className = ''bg-warning text-warning-foreground'' \<rparr>),
     (''low'', \<lparr> variant = ''secondary'', className = [] \<rparr>) ]"

definition Alerts_getPriorityBadge :: "string \<Rightarrow> property" where
  "Alerts_getPriorityBadge priority' =
     or_else (getProperty Alerts_priority_variants priority')
       (getProperty Alerts_priority_variants ''medium'')"

section \<open>E-FIR cases (the E-FIR page, \<^verbatim>\<open>export default function EFir\<close>)\<close>

record EFIRCase =
  id :: string
  firNumber :: string
  touristId :: string
  touristName :: string
  caseType :: string
  lastSeen :: string
  location :: string
  description :: string
  status :: jsval
  createdAt :: string
  assignedOfficer :: string
  priority :: jsval

record NewEFIRForm =
  touristId :: string
  lastSeen :: string
  location :: string
  description :: string
  caseType :: string
  reporterName :: string
  reporterContact :: string

definition mockEFIRCases :: "EFIRCase list" where
  "mockEFIRCases =
   [ \<lparr> EFIRCase.id = ''1'', firNumber = ''FIR-2024-001'', touristId = ''TID-2024-005'',
       touristName = ''Sarah Johnson'', caseType = ''missing'',
       lastSeen = ''2024-01-15 10:30:00'', location = ''Chandni Chowk Market'',
       description = ''Tourist was separated from group in crowded market area. Last seen wearing blue jacket and carrying red backpack.'',
       status = JString ''investigating'', createdAt = ''2024-01-15 11:00:00'',
       assignedOfficer = ''Insp. Rajesh Kumar'', priority = JString ''high'' \<rparr>,
     \<lparr> EFIRCase.id = ''2'', firNumber = ''FIR-2024-002'', touristId = ''TID-2024-006'',
       touristName = ''Michael Brown'', caseType = ''theft'',
       lastSeen = ''2024-01-14 16:15:00'', location = ''India Gate'',
       description = ''Tourist reported theft of passport and wallet while taking photographs near India Gate.'',
       status = JString ''resolved'', createdAt = ''2024-01-14 17:00:00'',
       assignedOfficer = ''Const. Priya Sharma'', priority = JString ''medium'' \<rparr> ]"

definition CaseStatus :: "string list" where
  "CaseStatus = [''pending'', ''investigating'', ''resolved'', ''closed'']"

definition filteredCases :: "EFIRCase list \<Rightarrow> string \<Rightarrow> EFIRCase list" where
  "filteredCases data statusFilter =
     filter (\<lambda>c. statusFilter = ''all'' \<or> EFIRCase.status c = JString statusFilter) data"

definition EFir_stats :: "EFIRCase list \<Rightarrow> (string \<times> string) list" where
  "EFir_stats data =
   [ (''Total Cases'', Number_toString (length data)),
     (''Active Cases'',
        Number_toString (length (filter (\<lambda>c. EFIRCase.status c = JString ''investigating'' \<or>
                                               EFIRCase.status c = JString ''pending'') data))),
     (''Resolved Today'',
        Number_toString (length (filter (\<lambda>c. EFIRCase.status c = JString ''resolved'') data))),
     (''High Priority'',
        Number_toString (length (filter (\<lambda>c. EFIRCase.priority c = JString ''high'') data))) ]"

definition EFir :: "EFIRCase list \<Rightarrow> string \<Rightarrow> EFIRCase view" where
  "EFir data statusFilter =
     \<lparr> rows = filteredCases data statusFilter, tiles = EFir_stats data \<rparr>"

definition EFir_status_variants :: "(string \<times> BadgeTreatment) list" where
  "EFir_status_variants =
   [ (''pending'', \<lparr> variant = ''outline'', className = ''text-warning bg-warning/10'' \<rparr>),
     (''investigating'', \<lparr> variant = ''default'', className = ''bg-info text-info-foreground'' \<rparr>),
     (''resolved'', \<lparr> variant = ''default'', className = ''bg-success text-success-foreground'' \<rparr>),
     (''closed'', \<lparr> variant = ''secondary'', className = [] \<rparr>) ]"

definition EFir_getStatusBadge :: "string \<Rightarrow> property" where
  "EFir_getStatusBadge status' =
     or_else (getProperty EFir_status_variants status')
       (getProperty EFir_status_variants ''pending'')"

definition EFir_priority_variants :: "(string \<times> BadgeTreatment) list" where
  "EFir_priority_variants =
   [ (''high'', \<lparr> variant = ''destructive'', className = [] \<rparr>),
     (''medium'', \<lparr> variant = ''default'', className = ''bg-warning text-warning-foreground'' \<rparr>),
     (''low'', \<lparr> variant = ''secondary'', className = [] \<rparr>) ]"

definition EFir_getPriorityBadge :: "string \<Rightarrow> property" where
  "EFir_getPriorityBadge priority' =
     or_else (getProperty EFir_priority_variants priority')
       (getProperty EFir_priority_variants ''medium'')"

subsection \<open>Submitting the new-case form\<close>

text \<open>
  The component's state, and \<^verbatim>\<open>handleSubmit\<close> as the state it leaves once the awaited
  timer has fired, together with the toast it shows. The awaited promise always resolves
  and nothing in the \<^verbatim>\<open>try\<close> block throws, so the \<^verbatim>\<open>catch\<close> branch is not a result
  of the function. \<^verbatim>\<open>mockEFIRCases\<close> is a module constant that no code writes to.
\<close>

record EFirState =
  isFormOpen :: bool
  isConfirmationOpen :: bool
  generatedFIRNumber :: string
  statusFilter :: string
  formData :: NewEFIRForm

record Toast =
  title :: string
  description :: string

definition emptyForm :: NewEFIRForm where
  "emptyForm =
     \<lparr> NewEFIRForm.touristId = [], lastSeen = [], location = [], description = [],
       caseType = [], reporterName = [], reporterContact = [] \<rparr>"

definition firNumber_of :: "EFIRCase list \<Rightarrow> string" where
  "firNumber_of cases =
     ''FIR-2024-'' @ padStart 3 (CHR ''0'') (Number_toString (length cases + 1))"

definition handleSubmit :: "EFIRCase list \<Rightarrow> EFirState \<Rightarrow> EFirState \<times> Toast" where
  "handleSubmit cases st =
     (let firNumber' = firNumber_of cases
      in (st \<lparr> generatedFIRNumber := firNumber',
                isFormOpen := False,
                isConfirmationOpen := True,
                formData := emptyForm \<rparr>,
          \<lparr> title = ''E-FIR Generated Successfully'',
            description = ''FIR Number: '' @ firNumber' \<rparr>))"

section \<open>The filter contract in the specification's words\<close>

text \<open>
  The specification describes one filter for the three pages: a dimension whose selected
  value is not the sentinel \<^verbatim>\<open>"all"\<close> requires the record's field to equal the selected
  value, a search query requires the lowercased query to be a substring of a lowercased
  searchable field, and a record passes when every configured predicate holds. These
  definitions follow that wording, with \<^const>\<open>sublist\<close> for "is a substring of";
  they are what the filters translated from the source are compared with.
\<close>

definition spec_dimension :: "string \<Rightarrow> jsval \<Rightarrow> bool" where
  "spec_dimension selected field = (selected \<noteq> ''all'' \<longrightarrow> field = JString selected)"

definition spec_search :: "string \<Rightarrow> jsval list \<Rightarrow> bool" where
  "spec_search query searchable =
     list_ex (\<lambda>f. case f of
                     JString s \<Rightarrow> sublist (toLowerCase query) (toLowerCase s)
                   | JUndefined \<Rightarrow> False
                   | JNull \<Rightarrow> False) searchable"

definition spec_tourist_passes :: "string \<Rightarrow> string \<Rightarrow> string \<Rightarrow> TouristRecord \<Rightarrow> bool" where
  "spec_tourist_passes query selectedStatus selectedNationality r =
     (spec_dimension selectedStatus (TouristRecord.status r) \<and>
      spec_dimension selectedNationality (nationality r) \<and>
      spec_search query [name r, digitalId r])"

definition spec_alert_passes :: "string \<Rightarrow> string \<Rightarrow> Alert \<Rightarrow> bool" where
  "spec_alert_passes selectedStatus selectedPriority a =
     (spec_dimension selectedStatus (Alert.status a) \<and>
      spec_dimension selectedPriority (Alert.priority a))"

definition spec_case_passes :: "string \<Rightarrow> EFIRCase \<Rightarrow> bool" where
  "spec_case_passes selectedStatus c = spec_dimension selectedStatus (EFIRCase.status c)"

text \<open>
  The digital-ID filter with its search predicate removed: the callback's other two
  constants alone.
\<close>

definition filteredData_without_search ::
  "TouristRecord list \<Rightarrow> string \<Rightarrow> string \<Rightarrow> TouristRecord list" where
  "filteredData_without_search data selectedStatus selectedNationality =
     filter (\<lambda>r. matchesStatus selectedStatus r \<and> matchesNationality selectedNationality r) data"

section \<open>Facts about the JavaScript operations\<close>

lemma startsWith_iff: "startsWith s t \<longleftrightarrow> prefix t s"
  by (induction s t rule: startsWith.induct) auto

text \<open>\<^verbatim>\<open>s.includes(t)\<close> is true exactly when \<open>t\<close> is a contiguous part of \<open>s\<close>.\<close>

lemma String_includes_iff: "String_includes s t \<longleftrightarrow> sublist t s"
proof (induction s)
  case Nil
  then show ?case by (cases t) auto
next
  case (Cons c s)
  show ?case
  proof (cases t)
    case Nil
    then show ?thesis by simp
  next
    case t: (Cons d t')
    then show ?thesis
      using Cons.IH by (simp add: startsWith_iff sublist_Cons_right del: startsWith.simps)
  qed
qed

lemma Array_filter_pure: "Array_filter (\<lambda>x. Inr (p x)) xs = Inr (filter p xs)"
  by (induction xs) auto

lemma Array_filter_total:
  "\<forall>x\<in>set xs. cb x = Inr (p x) \<Longrightarrow> Array_filter cb xs = Inr (filter p xs)"
  by (induction xs) auto

lemma filter_keeps_order:
  "i < j \<Longrightarrow> j < length (filter P xs) \<Longrightarrow>
   \<exists>i' j'. i' < j' \<and> j' < length xs \<and> xs ! i' = filter P xs ! i \<and> xs ! j' = filter P xs ! j"
proof (induction xs arbitrary: i j)
  case Nil
  then show ?case by simp
next
  case (Cons x xs)
  show ?case
  proof (cases "P x")
    case False
    with Cons.prems have "j < length (filter P xs)" by simp
    from Cons.IH [OF Cons.prems(1) this] obtain i' j' where
      "i' < j'" "j' < length xs" "xs ! i' = filter P xs ! i" "xs ! j' = filter P xs ! j"
      by blast
    with False have "Suc i' < Suc j' \<and> Suc j' < length (x # xs) \<and>
        (x # xs) ! Suc i' = filter P (x # xs) ! i \<and> (x # xs) ! Suc j' = filter P (x # xs) ! j"
      by simp
    then show ?thesis by blast
  next
    case True
    from Cons.prems obtain j0 where j: "j = Suc j0" by (cases j) auto
    with Cons.prems True have j0: "j0 < length (filter P xs)" by simp
    show ?thesis
    proof (cases i)
      case 0
      from j0 have "filter P xs ! j0 \<in> set xs"
        using nth_mem [OF j0] by simp
      then obtain k where "k < length xs" "xs ! k = filter P xs ! j0"
        by (auto simp: in_set_conv_nth)
      with True 0 j have "0 < Suc k \<and> Suc k < length (x # xs) \<and>
          (x # xs) ! 0 = filter P (x # xs) ! i \<and> (x # xs) ! Suc k = filter P (x # xs) ! j"
        by simp
      then show ?thesis by blast
    next
      case (Suc i0)
      with Cons.prems j have "i0 < j0" by simp
      from Cons.IH [OF this j0] obtain i' j' where
        "i' < j'" "j' < length xs" "xs ! i' = filter P xs ! i0" "xs ! j' = filter P xs ! j0"
        by blast
      with True Suc j have "Suc i' < Suc j' \<and> Suc j' < length (x # xs) \<and>
          (x # xs) ! Suc i' = filter P (x # xs) ! i \<and> (x # xs) ! Suc j' = filter P (x # xs) ! j"
        by simp
      then show ?thesis by blast
    qed
  qed
qed

lemma count_list_filter_le: "count_list (filter P xs) a \<le> count_list xs a"
  by (induction xs) auto

lemma Number_toString_small: "n < 10 \<Longrightarrow> Number_toString n = [digitChar n]"
  by (simp add: Number_toString.simps)

lemma digitChar_zero: "digitChar 0 = CHR ''0''"
  by (simp add: digitChar_def)

lemma Number_toString_two_digits:
  assumes "10 \<le> n" "n < 100"
  shows "Number_toString n = [digitChar (n div 10), digitChar (n mod 10)]"
proof -
  from assms have "n div 10 < 10" by simp
  then have "Number_toString (n div 10) = [digitChar (n div 10)]"
    by (rule Number_toString_small)
  with assms show ?thesis
    by (subst Number_toString.simps) simp
qed

lemma Number_toString_three_digits:
  assumes "100 \<le> n" "n < 1000"
  shows "Number_toString n =
         [digitChar (n div 100), digitChar (n div 10 mod 10), digitChar (n mod 10)]"
proof -
  from assms have "10 \<le> n div 10" "n div 10 < 100" by simp_all
  then have "Number_toString (n div 10) =
      [digitChar (n div 10 div 10), digitChar (n div 10 mod 10)]"
    by (rule Number_toString_two_digits)
  moreover have "n div 10 div 10 = n div 100"
    by (simp add: div_mult2_eq [symmetric])
  ultimately show ?thesis
    using assms by (subst Number_toString.simps) simp
qed

text \<open>Below 1000, \<^verbatim>\<open>String(n).padStart(3, '0')\<close> is the three decimal digits of \<open>n\<close>.\<close>

lemma padStart_three:
  assumes "n < 1000"
  shows "padStart 3 (CHR ''0'') (Number_toString n) =
         [digitChar (n div 100), digitChar (n div 10 mod 10), digitChar (n mod 10)]"
proof -
  consider "n < 10" | "10 \<le> n" "n < 100" | "100 \<le> n" using assms by linarith
  then show ?thesis
  proof cases
    case 1
    then show ?thesis
      by (simp add: Number_toString_small padStart_def digitChar_zero numeral_3_eq_3)
  next
    case 2
    then have "n div 100 = 0" "n div 10 mod 10 = n div 10" by simp_all
    with 2 show ?thesis
      by (simp add: Number_toString_two_digits padStart_def digitChar_zero)
  next
    case 3
    with assms show ?thesis
      by (simp add: Number_toString_three_digits padStart_def)
  qed
qed

text \<open>
  The three outcomes of a badge lookup: an own key gives its treatment, a key of
  \<^verbatim>\<open>Object.prototype\<close> gives the inherited member, and only any other key gives the
  default.
\<close>

lemma badge_recognised:
  "map_of own k = Some t \<Longrightarrow> or_else (getProperty own k) d = Treatment t"
  by (simp add: getProperty_def or_else_def)

lemma badge_default:
  "map_of own k = None \<Longrightarrow> k \<notin> set ObjectPrototype_keys \<Longrightarrow>
   or_else (getProperty own k) d = d"
  by (simp add: getProperty_def or_else_def)

lemma badge_inherited:
  "map_of own k = None \<Longrightarrow> k \<in> set ObjectPrototype_keys \<Longrightarrow>
   or_else (getProperty own k) d = PrototypeMember k"
  by (simp add: getProperty_def or_else_def)

section \<open>The filters against the specification's contract\<close>

lemma matchesSearch_conforms:
  assumes "conforms r"
  shows "matchesSearch q r = Inr (spec_search q [name r, digitalId r])"
proof -
  from assms obtain n d where nd: "name r = JString n" "digitalId r = JString d"
    unfolding conforms_def by (cases "name r"; cases "digitalId r") auto
  then show ?thesis
    by (simp add: matchesSearch_def spec_search_def String_includes_iff)
qed

lemma matchesSearch_empty:
  "isString (name r) \<Longrightarrow> matchesSearch [] r = Inr True"
  by (cases "name r") (simp_all add: matchesSearch_def toLowerCase_def String_includes_iff)

lemma matchesStatus_spec: "matchesStatus sf r = spec_dimension sf (TouristRecord.status r)"
  by (auto simp: matchesStatus_def spec_dimension_def)

lemma matchesNationality_spec: "matchesNationality nf r = spec_dimension nf (nationality r)"
  by (auto simp: matchesNationality_def spec_dimension_def)

lemma callback_conforms:
  "conforms r \<Longrightarrow>
   filteredData_callback q sf nf r = Inr (spec_tourist_passes q sf nf r)"
  by (auto simp: filteredData_callback_def matchesSearch_conforms spec_tourist_passes_def
        matchesStatus_spec matchesNationality_spec)

lemma callback_empty_search:
  "isString (name r) \<Longrightarrow>
   filteredData_callback [] sf nf r = Inr (matchesStatus sf r \<and> matchesNationality nf r)"
  by (simp add: filteredData_callback_def matchesSearch_empty)

lemma filteredData_conforms:
  "\<forall>r\<in>set data. conforms r \<Longrightarrow>
   filteredData data q sf nf = Inr (filter (spec_tourist_passes q sf nf) data)"
  unfolding filteredData_def by (rule Array_filter_total) (simp add: callback_conforms)

lemma filteredAlerts_spec: "filteredAlerts data sf pf = filter (spec_alert_passes sf pf) data"
  unfolding filteredAlerts_def spec_alert_passes_def spec_dimension_def
  by (rule filter_cong) auto

lemma filteredCases_spec: "filteredCases data sf = filter (spec_case_passes sf) data"
  unfolding filteredCases_def spec_case_passes_def spec_dimension_def
  by (rule filter_cong) auto

lemma DigitalIds_conforms:
  "\<forall>r\<in>set data. conforms r \<Longrightarrow>
   DigitalIds data q sf nf =
     Inr \<lparr> rows = filter (spec_tourist_passes q sf nf) data, tiles = DigitalIds_stats data \<rparr>"
  by (simp add: DigitalIds_def filteredData_conforms)

lemma mockTouristData_conforms: "\<forall>r\<in>set mockTouristData. conforms r"
  by (simp add: mockTouristData_def conforms_def)

text \<open>
  A throwing callback ends the filter: with an absent \<^verbatim>\<open>name\<close> the digital-ID filter
  is a TypeError, whatever the selection. The properties below therefore assume what the
  interface declares, that the searched fields are strings.
\<close>

lemma filteredData_absent_name:
  "name r = JUndefined \<Longrightarrow> filteredData (r # data) q sf nf = Inl TypeError"
  by (simp add: filteredData_def filteredData_callback_def matchesSearch_def)

section \<open>Filter semantics\<close>

text \<open>
  C1. For every record collection, every selection per dimension and every search string,
  a record is in the filtered output exactly when it is in the collection and passes the
  specification's predicate: for each dimension whose selection is not \<^verbatim>\<open>"all"\<close> the
  field equals the selection (case-sensitively), and on the digital-ID page the lowercased
  search string is a substring of the lowercased name or of the lowercased identifier;
  the predicates are conjoined. This holds for the three filters \<^verbatim>\<open>filteredData\<close>,
  \<^verbatim>\<open>filteredAlerts\<close> and \<^verbatim>\<open>filteredCases\<close>; the records of the digital-ID collection
  have the string \<^verbatim>\<open>name\<close> and \<^verbatim>\<open>digitalId\<close> that their interface declares.
\<close>

theorem filter_semantics:
  assumes "\<forall>r\<in>set tourists. conforms r"
  shows "(\<exists>shown. filteredData tourists q sf nf = Inr shown \<and>
            (\<forall>r. r \<in> set shown \<longleftrightarrow>
                  r \<in> set tourists \<and> spec_tourist_passes q sf nf r)) \<and>
         (\<forall>a. a \<in> set (filteredAlerts alerts sa pa) \<longleftrightarrow>
                a \<in> set alerts \<and> spec_alert_passes sa pa a) \<and>
         (\<forall>c. c \<in> set (filteredCases efirs cs) \<longleftrightarrow>
                c \<in> set efirs \<and> spec_case_passes cs c)"
proof (intro conjI)
  show "\<exists>shown. filteredData tourists q sf nf = Inr shown \<and>
            (\<forall>r. r \<in> set shown \<longleftrightarrow>
                  r \<in> set tourists \<and> spec_tourist_passes q sf nf r)"
    using filteredData_conforms [OF assms] by simp
  show "\<forall>a. a \<in> set (filteredAlerts alerts sa pa) \<longleftrightarrow>
                a \<in> set alerts \<and> spec_alert_passes sa pa a"
    by (simp add: filteredAlerts_spec)
  show "\<forall>c. c \<in> set (filteredCases efirs cs) \<longleftrightarrow>
                c \<in> set efirs \<and> spec_case_passes cs c"
    by (simp add: filteredCases_spec)
qed

text \<open>
  On the sample data: the search \<^verbatim>\<open>"MAR"\<close> with status \<^verbatim>\<open>"active"\<close> shows Marie Dubois
  alone, the status \<^verbatim>\<open>"Active"\<close> (another case) shows nobody, priority \<^verbatim>\<open>"high"\<close> shows
  the first two alerts in their order, and status \<^verbatim>\<open>"investigating"\<close> shows the first
  case.
\<close>

theorem filter_semantics_witness:
  "list_all conforms mockTouristData \<and>
   filteredData mockTouristData ''MAR'' ''active'' ''all'' = Inr [mockTouristData ! 1] \<and>
   (\<forall>r. r \<in> set [mockTouristData ! 1] \<longleftrightarrow>
         r \<in> set mockTouristData \<and> spec_tourist_passes ''MAR'' ''active'' ''all'' r) \<and>
   filteredData mockTouristData ''mar'' ''Active'' ''all'' = Inr [] \<and>
   filteredAlerts mockAlerts ''all'' ''high'' = take 2 mockAlerts \<and>
   (\<forall>a. a \<in> set (take 2 mockAlerts) \<longleftrightarrow>
         a \<in> set mockAlerts \<and> spec_alert_passes ''all'' ''high'' a) \<and>
   filteredCases mockEFIRCases ''investigating'' = take 1 mockEFIRCases \<and>
   (\<forall>c. c \<in> set (take 1 mockEFIRCases) \<longleftrightarrow>
         c \<in> set mockEFIRCases \<and> spec_case_passes ''investigating'' c)"
proof -
  have t: "filteredData mockTouristData ''MAR'' ''active'' ''all'' = Inr [mockTouristData ! 1]"
    by code_simp
  have t': "filteredData mockTouristData ''mar'' ''Active'' ''all'' = Inr []"
    by code_simp
  have a: "filteredAlerts mockAlerts ''all'' ''high'' = take 2 mockAlerts"
    by (simp add: filteredAlerts_def mockAlerts_def)
  have c: "filteredCases mockEFIRCases ''investigating'' = take 1 mockEFIRCases"
    by (simp add: filteredCases_def mockEFIRCases_def)
  from filter_semantics [OF mockTouristData_conforms, of "''MAR''" "''active''" "''all''"
      mockAlerts "''all''" "''high''" mockEFIRCases "''investigating''"]
  show ?thesis
    unfolding t t' a c using mockTouristData_conforms by (simp add: list_all_iff)
qed

text \<open>
  C4. For every record collection whose names are strings, the digital-ID filter with both
  selections \<^verbatim>\<open>"all"\<close> and the empty search string returns the collection itself: every
  record, in the original order.
\<close>

theorem no_filter_identity:
  assumes "\<forall>r\<in>set data. isString (name r)"
  shows "filteredData data [] ''all'' ''all'' = Inr data"
proof -
  have "filteredData data [] ''all'' ''all'' = Inr (filter (\<lambda>r. True) data)"
    unfolding filteredData_def
    by (rule Array_filter_total)
       (use assms in \<open>simp add: callback_empty_search matchesStatus_def matchesNationality_def\<close>)
  then show ?thesis by simp
qed

theorem no_filter_identity_witness:
  "list_all (\<lambda>r. isString (name r)) mockTouristData \<and>
   filteredData mockTouristData [] ''all'' ''all'' = Inr mockTouristData \<and>
   length mockTouristData = 4"
proof -
  have h: "\<forall>r\<in>set mockTouristData. isString (name r)"
    by (simp add: mockTouristData_def)
  show ?thesis
    using no_filter_identity [OF h] h by (simp add: list_all_iff mockTouristData_def)
qed

text \<open>
  C5. Filtering is idempotent: for every collection and every configuration, filtering
  the filtered result again with the same configuration returns that result, with no
  record removed. Proved for \<^verbatim>\<open>filteredData\<close> (on records whose searched fields are
  strings), \<^verbatim>\<open>filteredCases\<close> and \<^verbatim>\<open>filteredAlerts\<close>.
\<close>

theorem filter_idempotent:
  assumes "\<forall>r\<in>set data. conforms r"
  shows "(\<exists>shown. filteredData data q sf nf = Inr shown \<and>
                  filteredData shown q sf nf = Inr shown) \<and>
         filteredCases (filteredCases efirs cs) cs = filteredCases efirs cs \<and>
         filteredAlerts (filteredAlerts alerts sa pa) sa pa = filteredAlerts alerts sa pa"
proof -
  let ?shown = "filter (spec_tourist_passes q sf nf) data"
  have sub: "\<forall>r\<in>set ?shown. conforms r"
    using assms by simp
  have "filteredData data q sf nf = Inr ?shown"
    by (rule filteredData_conforms [OF assms])
  moreover have "filteredData ?shown q sf nf = Inr ?shown"
    by (simp add: filteredData_conforms [OF sub])
  ultimately show ?thesis
    by (simp add: filteredCases_def filteredAlerts_def)
qed

theorem filter_idempotent_witness:
  "list_all conforms mockTouristData \<and>
   filteredData mockTouristData ''tid'' ''active'' ''all'' = Inr (take 2 mockTouristData) \<and>
   filteredData (take 2 mockTouristData) ''tid'' ''active'' ''all'' =
     Inr (take 2 mockTouristData) \<and>
   filteredCases mockEFIRCases ''resolved'' = drop 1 mockEFIRCases \<and>
   filteredCases (drop 1 mockEFIRCases) ''resolved'' = drop 1 mockEFIRCases"
proof -
  have t: "filteredData mockTouristData ''tid'' ''active'' ''all'' = Inr (take 2 mockTouristData)"
    by code_simp
  have c: "filteredCases mockEFIRCases ''resolved'' = drop 1 mockEFIRCases"
    by (simp add: filteredCases_def mockEFIRCases_def)
  from filter_idempotent [OF mockTouristData_conforms, of "''tid''" "''active''" "''all''"
      mockEFIRCases "''resolved''"]
  show ?thesis
    unfolding t c using mockTouristData_conforms by (simp add: list_all_iff)
qed

text \<open>
  C6. For every collection and every configuration the filtered alerts are a subsequence
  of the collection: every record of the result occurs in the collection, no record
  occurs more often than there (so a collection without duplicates gives a result without
  duplicates), and two records of the result stand in the order they have in the
  collection.
\<close>

theorem filtered_is_subsequence:
  "subseq (filteredAlerts data sa pa) data \<and>
   set (filteredAlerts data sa pa) \<subseteq> set data \<and>
   mset (filteredAlerts data sa pa) \<subseteq># mset data \<and>
   (\<forall>a. count_list (filteredAlerts data sa pa) a \<le> count_list data a) \<and>
   (distinct data \<longrightarrow> distinct (filteredAlerts data sa pa)) \<and>
   (\<forall>i j. i < j \<and> j < length (filteredAlerts data sa pa) \<longrightarrow>
      (\<exists>i' j'. i' < j' \<and> j' < length data \<and>
               data ! i' = filteredAlerts data sa pa ! i \<and>
               data ! j' = filteredAlerts data sa pa ! j))"
proof (intro conjI)
  show "subseq (filteredAlerts data sa pa) data"
    by (simp add: filteredAlerts_def)
  show "set (filteredAlerts data sa pa) \<subseteq> set data"
    by (auto simp: filteredAlerts_def)
  show "mset (filteredAlerts data sa pa) \<subseteq># mset data"
    by (simp add: filteredAlerts_def)
  show "\<forall>a. count_list (filteredAlerts data sa pa) a \<le> count_list data a"
    by (simp add: filteredAlerts_def count_list_filter_le)
  show "distinct data \<longrightarrow> distinct (filteredAlerts data sa pa)"
    by (simp add: filteredAlerts_def)
  show "\<forall>i j. i < j \<and> j < length (filteredAlerts data sa pa) \<longrightarrow>
      (\<exists>i' j'. i' < j' \<and> j' < length data \<and>
               data ! i' = filteredAlerts data sa pa ! i \<and>
               data ! j' = filteredAlerts data sa pa ! j)"
    unfolding filteredAlerts_def using filter_keeps_order by blast
qed

text \<open>
  On the three sample alerts with status \<^verbatim>\<open>"all"\<close> and priority \<^verbatim>\<open>"high"\<close>: the
  result is the first two alerts, in that order.
\<close>

theorem filtered_is_subsequence_witness:
  "distinct mockAlerts \<and>
   filteredAlerts mockAlerts ''all'' ''high'' = [mockAlerts ! 0, mockAlerts ! 1] \<and>
   subseq [mockAlerts ! 0, mockAlerts ! 1] mockAlerts \<and>
   distinct [mockAlerts ! 0, mockAlerts ! 1] \<and>
   (\<exists>i' j'. i' < j' \<and> j' < length mockAlerts \<and>
            mockAlerts ! i' = mockAlerts ! 0 \<and> mockAlerts ! j' = mockAlerts ! 1)"
proof -
  have d: "distinct mockAlerts"
    by (simp add: mockAlerts_def)
  have a: "filteredAlerts mockAlerts ''all'' ''high'' = [mockAlerts ! 0, mockAlerts ! 1]"
    by (simp add: filteredAlerts_def mockAlerts_def)
  from filtered_is_subsequence [of mockAlerts "''all''" "''high''"]
  have s: "subseq [mockAlerts ! 0, mockAlerts ! 1] mockAlerts"
    and d': "distinct mockAlerts \<longrightarrow> distinct [mockAlerts ! 0, mockAlerts ! 1]"
    and o: "\<forall>i j. i < j \<and> j < length [mockAlerts ! 0, mockAlerts ! 1] \<longrightarrow>
      (\<exists>i' j'. i' < j' \<and> j' < length mockAlerts \<and>
               mockAlerts ! i' = [mockAlerts ! 0, mockAlerts ! 1] ! i \<and>
               mockAlerts ! j' = [mockAlerts ! 0, mockAlerts ! 1] ! j)"
    unfolding a by blast+
  from o [rule_format, of 0 1]
  have "\<exists>i' j'. i' < j' \<and> j' < length mockAlerts \<and>
            mockAlerts ! i' = mockAlerts ! 0 \<and> mockAlerts ! j' = mockAlerts ! 1"
    by simp
  with d a s d' show ?thesis by blast
qed

text \<open>
  C10. For every collection whose names are strings and every status and nationality
  selection, the empty search term imposes no constraint: the empty string is contained
  in every lowercased string, the search test is true of every record, and the filter
  returns what the filter without the search predicate returns.
\<close>

theorem empty_search_is_no_constraint:
  assumes "\<forall>r\<in>set data. isString (name r)"
  shows "filteredData data [] sf nf = Inr (filteredData_without_search data sf nf) \<and>
         (\<forall>r\<in>set data. matchesSearch [] r = Inr True) \<and>
         (\<forall>s. String_includes (toLowerCase s) (toLowerCase []))"
proof -
  have "filteredData data [] sf nf = Inr (filteredData_without_search data sf nf)"
    unfolding filteredData_def filteredData_without_search_def
    by (rule Array_filter_total) (use assms in \<open>simp add: callback_empty_search\<close>)
  then show ?thesis
    using assms by (simp add: matchesSearch_empty String_includes_iff toLowerCase_def)
qed

theorem empty_search_is_no_constraint_witness:
  "list_all (\<lambda>r. isString (name r)) mockTouristData \<and>
   filteredData mockTouristData [] ''all'' ''Japan'' =
     Inr (filteredData_without_search mockTouristData ''all'' ''Japan'') \<and>
   filteredData_without_search mockTouristData ''all'' ''Japan'' = [mockTouristData ! 2] \<and>
   list_all (\<lambda>r. matchesSearch [] r = Inr True) mockTouristData"
proof -
  have h: "\<forall>r\<in>set mockTouristData. isString (name r)"
    by (simp add: mockTouristData_def)
  have w: "filteredData_without_search mockTouristData ''all'' ''Japan'' = [mockTouristData ! 2]"
    by code_simp
  from empty_search_is_no_constraint [OF h, of "''all''" "''Japan''"]
  show ?thesis
    using h w by (simp add: list_all_iff)
qed

section \<open>Summary statistics\<close>

text \<open>
  C2, amended to what the pages compute. On the digital-ID page and on the E-FIR page the
  statistics tiles are counts over the full, unfiltered collection: two renders with
  different search and filter selections show the same tiles. On the Alerts page the four
  tiles are counts over the filtered alerts, the rows of the table, so they follow the
  status and priority selection.
\<close>

theorem statistics_scope:
  assumes "\<forall>r\<in>set tourists. conforms r"
  shows "(\<exists>v v'. DigitalIds tourists q sf nf = Inr v \<and> DigitalIds tourists q' sf' nf' = Inr v' \<and>
                  tiles v = tiles v' \<and> tiles v = DigitalIds_stats tourists) \<and>
         tiles (EFir efirs cs) = tiles (EFir efirs cs') \<and>
         tiles (EFir efirs cs) = EFir_stats efirs \<and>
         tiles (Alerts alerts sa pa) = Alerts_stats (filteredAlerts alerts sa pa)"
  using DigitalIds_conforms [OF assms] by (simp add: EFir_def Alerts_def)

theorem statistics_scope_witness:
  "list_all conforms mockTouristData \<and>
   (\<exists>v v'. DigitalIds mockTouristData ''mar'' ''active'' ''all'' = Inr v \<and>
            DigitalIds mockTouristData [] ''all'' ''all'' = Inr v' \<and>
            tiles v = tiles v' \<and> tiles v = DigitalIds_stats mockTouristData) \<and>
   DigitalIds_stats mockTouristData =
     [(''Total Records'', ''4''), (''Active Tourists'', ''2''),
      (''Alert Status'', ''1''), (''Nationalities'', ''4'')] \<and>
   tiles (EFir mockEFIRCases ''resolved'') =
     [(''Total Cases'', ''2''), (''Active Cases'', ''1''),
      (''Resolved Today'', ''1''), (''High Priority'', ''1'')]"
proof -
  have d: "DigitalIds_stats mockTouristData =
     [(''Total Records'', ''4''), (''Active Tourists'', ''2''),
      (''Alert Status'', ''1''), (''Nationalities'', ''4'')]"
    by code_simp
  have e: "EFir_stats mockEFIRCases =
     [(''Total Cases'', ''2''), (''Active Cases'', ''1''),
      (''Resolved Today'', ''1''), (''High Priority'', ''1'')]"
    by code_simp
  from statistics_scope [OF mockTouristData_conforms, of "''mar''" "''active''" "''all''"
      "[]" "''all''" "''all''" mockEFIRCases "''resolved''"]
  show ?thesis
    using mockTouristData_conforms d e by (simp add: list_all_iff)
qed

text \<open>
  The statistics of the Alerts page are not independent of the filter: on the sample
  alerts, selecting the status \<^verbatim>\<open>"resolved"\<close> turns "Active Alerts" from 1 to 0 and
  "High Priority" from 2 to 0.
\<close>

theorem alerts_statistics_follow_filter:
  "tiles (Alerts mockAlerts ''all'' ''all'') =
     [(''Active Alerts'', ''1''), (''High Priority'', ''2''),
      (''Under Investigation'', ''1''), (''Resolved Today'', ''1'')] \<and>
   tiles (Alerts mockAlerts ''resolved'' ''all'') =
     [(''Active Alerts'', ''0''), (''High Priority'', ''0''),
      (''Under Investigation'', ''0''), (''Resolved Today'', ''1'')]"
  by code_simp

text \<open>
  C3, amended to what the pages compute. On the Alerts page each named statistic is the count of the
  records of the filtered result that satisfy the statistic's predicate. On the digital-ID
  page the rows are the records that pass the filter, and each named statistic is the
  count of the records of the full collection (not of the rows) that satisfy the
  statistic's predicate. In particular, for a collection of four records with the statuses
  active, active, alert, inactive, the status selection \<^verbatim>\<open>"active"\<close> shows exactly the
  two active records, with "Active Tourists" = 2 and "Alert Status" = 1.
\<close>

theorem statistics_counts:
  assumes "\<forall>r\<in>set data. conforms r"
  shows "(\<exists>v. DigitalIds data q sf nf = Inr v \<and>
              rows v = filter (spec_tourist_passes q sf nf) data \<and>
              map_of (tiles v) ''Total Records'' = Some (Number_toString (length data)) \<and>
              map_of (tiles v) ''Active Tourists'' =
                Some (Number_toString
                        (length (filter (\<lambda>r. TouristRecord.status r = JString ''active'') data))) \<and>
              map_of (tiles v) ''Alert Status'' =
                Some (Number_toString
                        (length (filter (\<lambda>r. TouristRecord.status r = JString ''alert'') data))) \<and>
              map_of (tiles v) ''Nationalities'' =
                Some (Number_toString (card (nationality ` set data)))) \<and>
         (map TouristRecord.status data =
            [JString ''active'', JString ''active'', JString ''alert'', JString ''inactive''] \<longrightarrow>
          (\<exists>v. DigitalIds data [] ''active'' ''all'' = Inr v \<and>
               rows v = take 2 data \<and>
               map_of (tiles v) ''Active Tourists'' = Some ''2'' \<and>
               map_of (tiles v) ''Alert Status'' = Some ''1'')) \<and>
         (rows (Alerts alerts sa pa) = filteredAlerts alerts sa pa \<and>
          map_of (tiles (Alerts alerts sa pa)) ''Active Alerts'' =
            Some (Number_toString
                    (length (filter (\<lambda>a. Alert.status a = JString ''active'')
                               (filteredAlerts alerts sa pa)))) \<and>
          map_of (tiles (Alerts alerts sa pa)) ''High Priority'' =
            Some (Number_toString
                    (length (filter (\<lambda>a. Alert.priority a = JString ''high'')
                               (filteredAlerts alerts sa pa)))) \<and>
          map_of (tiles (Alerts alerts sa pa)) ''Under Investigation'' =
            Some (Number_toString
                    (length (filter (\<lambda>a. Alert.status a = JString ''investigating'')
                               (filteredAlerts alerts sa pa)))) \<and>
          map_of (tiles (Alerts alerts sa pa)) ''Resolved Today'' =
            Some (Number_toString
                    (length (filter (\<lambda>a. Alert.status a = JString ''resolved'')
                               (filteredAlerts alerts sa pa)))))"
proof -
  have full: "\<exists>v. DigitalIds data q sf nf = Inr v \<and>
              rows v = filter (spec_tourist_passes q sf nf) data \<and>
              map_of (tiles v) ''Total Records'' = Some (Number_toString (length data)) \<and>
              map_of (tiles v) ''Active Tourists'' =
                Some (Number_toString
                        (length (filter (\<lambda>r. TouristRecord.status r = JString ''active'') data))) \<and>
              map_of (tiles v) ''Alert Status'' =
                Some (Number_toString
                        (length (filter (\<lambda>r. TouristRecord.status r = JString ''alert'') data))) \<and>
              map_of (tiles v) ''Nationalities'' =
                Some (Number_toString (card (nationality ` set data)))"
    by (simp add: DigitalIds_conforms [OF assms] DigitalIds_stats_def length_remdups_card_conv)
  have scenario: "map TouristRecord.status data =
            [JString ''active'', JString ''active'', JString ''alert'', JString ''inactive''] \<longrightarrow>
          (\<exists>v. DigitalIds data [] ''active'' ''all'' = Inr v \<and>
               rows v = take 2 data \<and>
               map_of (tiles v) ''Active Tourists'' = Some ''2'' \<and>
               map_of (tiles v) ''Alert Status'' = Some ''1'')"
  proof
    assume st: "map TouristRecord.status data =
            [JString ''active'', JString ''active'', JString ''alert'', JString ''inactive'']"
    then obtain a b c d where data: "data = [a, b, c, d]"
      by (auto simp: map_eq_Cons_conv)
    with st have sts: "TouristRecord.status a = JString ''active''"
      "TouristRecord.status b = JString ''active''"
      "TouristRecord.status c = JString ''alert''"
      "TouristRecord.status d = JString ''inactive''"
      by simp_all
    from assms data have "isString (name a)" "isString (name b)" "isString (name c)"
      "isString (name d)"
      by (simp_all add: conforms_def)
    then have ms: "matchesSearch [] a = Inr True" "matchesSearch [] b = Inr True"
      "matchesSearch [] c = Inr True" "matchesSearch [] d = Inr True"
      by (simp_all add: matchesSearch_empty)
    have two: "Number_toString (Suc (Suc 0)) = ''2''" and one: "Number_toString (Suc 0) = ''1''"
      by (simp_all add: Number_toString.simps digitChar_def)
    show "\<exists>v. DigitalIds data [] ''active'' ''all'' = Inr v \<and>
               rows v = take 2 data \<and>
               map_of (tiles v) ''Active Tourists'' = Some ''2'' \<and>
               map_of (tiles v) ''Alert Status'' = Some ''1''"
      by (simp add: data sts ms DigitalIds_def filteredData_def filteredData_callback_def
            matchesStatus_def matchesNationality_def DigitalIds_stats_def two one)
  qed
  have shown: "rows (Alerts alerts sa pa) = filteredAlerts alerts sa pa \<and>
          map_of (tiles (Alerts alerts sa pa)) ''Active Alerts'' =
            Some (Number_toString
                    (length (filter (\<lambda>a. Alert.status a = JString ''active'')
                               (filteredAlerts alerts sa pa)))) \<and>
          map_of (tiles (Alerts alerts sa pa)) ''High Priority'' =
            Some (Number_toString
                    (length (filter (\<lambda>a. Alert.priority a = JString ''high'')
                               (filteredAlerts alerts sa pa)))) \<and>
          map_of (tiles (Alerts alerts sa pa)) ''Under Investigation'' =
            Some (Number_toString
                    (length (filter (\<lambda>a. Alert.status a = JString ''investigating'')
                               (filteredAlerts alerts sa pa)))) \<and>
          map_of (tiles (Alerts alerts sa pa)) ''Resolved Today'' =
            Some (Number_toString
                    (length (filter (\<lambda>a. Alert.status a = JString ''resolved'')
                               (filteredAlerts alerts sa pa))))"
    by (simp add: Alerts_def Alerts_stats_def)
  show ?thesis
    by (rule conjI [OF full conjI [OF scenario shown]])
qed

theorem statistics_counts_witness:
  "list_all conforms mockTouristData \<and>
   map TouristRecord.status mockTouristData =
     [JString ''active'', JString ''active'', JString ''alert'', JString ''inactive''] \<and>
   (\<exists>v. DigitalIds mockTouristData [] ''active'' ''all'' = Inr v \<and>
        rows v = take 2 mockTouristData \<and>
        map_of (tiles v) ''Active Tourists'' = Some ''2'' \<and>
        map_of (tiles v) ''Alert Status'' = Some ''1'')"
proof -
  have m: "map TouristRecord.status mockTouristData =
     [JString ''active'', JString ''active'', JString ''alert'', JString ''inactive'']"
    by (simp add: mockTouristData_def)
  from statistics_counts [OF mockTouristData_conforms, of "[]" "''active''" "''all''"
      mockAlerts "''all''" "''high''"] m
  have "\<exists>v. DigitalIds mockTouristData [] ''active'' ''all'' = Inr v \<and>
        rows v = take 2 mockTouristData \<and>
        map_of (tiles v) ''Active Tourists'' = Some ''2'' \<and>
        map_of (tiles v) ''Alert Status'' = Some ''1''"
    by blast
  with m mockTouristData_conforms show ?thesis
    by (simp add: list_all_iff)
qed

text \<open>
  The statistics of the digital-ID page are not counts in the filtered result: on the
  sample collection with the status selection \<^verbatim>\<open>"active"\<close> the tile "Alert Status" shows
  1, while the two rows contain no record with the status alert.
\<close>

theorem digital_id_statistics_unfiltered:
  "DigitalIds mockTouristData [] ''active'' ''all'' =
     Inr \<lparr> rows = take 2 mockTouristData,
           tiles = [(''Total Records'', ''4''), (''Active Tourists'', ''2''),
                    (''Alert Status'', ''1''), (''Nationalities'', ''4'')] \<rparr> \<and>
   map TouristRecord.status mockTouristData =
     [JString ''active'', JString ''active'', JString ''alert'', JString ''inactive''] \<and>
   Number_toString
     (length (filter (\<lambda>r. TouristRecord.status r = JString ''alert'') (take 2 mockTouristData))) =
     ''0''"
  by code_simp

section \<open>Values outside the enumerations\<close>

text \<open>
  C7. A record whose \<^verbatim>\<open>status\<close> or \<^verbatim>\<open>priority\<close> is outside the declared enumeration,
  or absent or \<^verbatim>\<open>null\<close>, does not make the filter fail: the filter returns a result. The
  record matches none of the concrete values of that dimension, so it is not in the result
  of such a selection; with the selection \<^verbatim>\<open>"all"\<close> the dimension does not exclude it (it
  is in the result exactly when the other predicates hold, and always when nothing else is
  selected).
\<close>

theorem unrecognised_enum_value:
  assumes "\<forall>x\<in>set data. conforms x"
    and "r \<in> set data"
    and "TouristRecord.status r \<notin> JString ` set TouristStatus"
  shows "(\<exists>shown. filteredData data q sf nf = Inr shown \<and>
            (sf \<in> set TouristStatus \<longrightarrow> r \<notin> set shown) \<and>
            (sf = ''all'' \<longrightarrow>
               (r \<in> set shown \<longleftrightarrow>
                  spec_dimension nf (nationality r) \<and> spec_search q [name r, digitalId r])) \<and>
            (sf = ''all'' \<and> nf = ''all'' \<and> q = [] \<longrightarrow> r \<in> set shown)) \<and>
         (\<forall>a. a \<in> set alerts \<and> Alert.status a \<notin> JString ` set AlertStatus \<longrightarrow>
            (sa \<in> set AlertStatus \<longrightarrow> a \<notin> set (filteredAlerts alerts sa pa)) \<and>
            (sa = ''all'' \<longrightarrow>
               (a \<in> set (filteredAlerts alerts sa pa) \<longleftrightarrow>
                  spec_dimension pa (Alert.priority a)))) \<and>
         (\<forall>a. a \<in> set alerts \<and> Alert.priority a \<notin> JString ` set Priority \<longrightarrow>
            (pa \<in> set Priority \<longrightarrow> a \<notin> set (filteredAlerts alerts sa pa)) \<and>
            (pa = ''all'' \<longrightarrow>
               (a \<in> set (filteredAlerts alerts sa pa) \<longleftrightarrow>
                  spec_dimension sa (Alert.status a))))"
proof (intro conjI)
  let ?shown = "filter (spec_tourist_passes q sf nf) data"
  have eq: "filteredData data q sf nf = Inr ?shown"
    by (rule filteredData_conforms [OF assms(1)])
  have out: "sf \<in> set TouristStatus \<longrightarrow> r \<notin> set ?shown"
    using assms(3) by (auto simp: spec_tourist_passes_def spec_dimension_def TouristStatus_def)
  have inn: "sf = ''all'' \<longrightarrow>
      (r \<in> set ?shown \<longleftrightarrow>
         spec_dimension nf (nationality r) \<and> spec_search q [name r, digitalId r])"
    using assms(2) by (simp add: spec_tourist_passes_def spec_dimension_def)
  have "isString (name r)"
    using assms(1,2) by (simp add: conforms_def)
  then have "spec_search [] [name r, digitalId r]"
    by (cases "name r") (simp_all add: spec_search_def toLowerCase_def)
  then have none: "sf = ''all'' \<and> nf = ''all'' \<and> q = [] \<longrightarrow> r \<in> set ?shown"
    using assms(2) by (simp add: spec_tourist_passes_def spec_dimension_def)
  show "\<exists>shown. filteredData data q sf nf = Inr shown \<and>
            (sf \<in> set TouristStatus \<longrightarrow> r \<notin> set shown) \<and>
            (sf = ''all'' \<longrightarrow>
               (r \<in> set shown \<longleftrightarrow>
                  spec_dimension nf (nationality r) \<and> spec_search q [name r, digitalId r])) \<and>
            (sf = ''all'' \<and> nf = ''all'' \<and> q = [] \<longrightarrow> r \<in> set shown)"
    using eq out inn none by blast
  show "\<forall>a. a \<in> set alerts \<and> Alert.status a \<notin> JString ` set AlertStatus \<longrightarrow>
            (sa \<in> set AlertStatus \<longrightarrow> a \<notin> set (filteredAlerts alerts sa pa)) \<and>
            (sa = ''all'' \<longrightarrow>
               (a \<in> set (filteredAlerts alerts sa pa) \<longleftrightarrow>
                  spec_dimension pa (Alert.priority a)))"
    by (auto simp: filteredAlerts_spec spec_alert_passes_def spec_dimension_def AlertStatus_def)
  show "\<forall>a. a \<in> set alerts \<and> Alert.priority a \<notin> JString ` set Priority \<longrightarrow>
            (pa \<in> set Priority \<longrightarrow> a \<notin> set (filteredAlerts alerts sa pa)) \<and>
            (pa = ''all'' \<longrightarrow>
               (a \<in> set (filteredAlerts alerts sa pa) \<longleftrightarrow>
                  spec_dimension sa (Alert.status a)))"
    by (auto simp: filteredAlerts_spec spec_alert_passes_def spec_dimension_def Priority_def)
qed

text \<open>
  On two sample collections: a tourist record whose \<^verbatim>\<open>status\<close> is absent is left out
  under the selection \<^verbatim>\<open>"active"\<close> and shown when nothing is selected; an alert with
  the priority \<^verbatim>\<open>"urgent"\<close> is left out under \<^verbatim>\<open>"high"\<close> and shown under \<^verbatim>\<open>"all"\<close>.
\<close>

theorem unrecognised_enum_value_witness:
  "list_all conforms
     [(mockTouristData ! 0)\<lparr>TouristRecord.status := JUndefined\<rparr>, mockTouristData ! 1] \<and>
   JUndefined \<notin> JString ` set TouristStatus \<and>
   (\<exists>shown. filteredData
              [(mockTouristData ! 0)\<lparr>TouristRecord.status := JUndefined\<rparr>, mockTouristData ! 1]
              [] ''active'' ''all'' = Inr shown \<and>
            (mockTouristData ! 0)\<lparr>TouristRecord.status := JUndefined\<rparr> \<notin> set shown) \<and>
   filteredData
     [(mockTouristData ! 0)\<lparr>TouristRecord.status := JUndefined\<rparr>, mockTouristData ! 1]
     [] ''active'' ''all'' = Inr [mockTouristData ! 1] \<and>
   filteredData
     [(mockTouristData ! 0)\<lparr>TouristRecord.status := JUndefined\<rparr>, mockTouristData ! 1]
     [] ''all'' ''all'' =
     Inr [(mockTouristData ! 0)\<lparr>TouristRecord.status := JUndefined\<rparr>, mockTouristData ! 1] \<and>
   JString ''urgent'' \<notin> JString ` set Priority \<and>
   filteredAlerts [(mockAlerts ! 0)\<lparr>Alert.priority := JString ''urgent''\<rparr>] ''all'' ''high'' = [] \<and>
   filteredAlerts [(mockAlerts ! 0)\<lparr>Alert.priority := JString ''urgent''\<rparr>] ''active'' ''all'' =
     [(mockAlerts ! 0)\<lparr>Alert.priority := JString ''urgent''\<rparr>]"
proof -
  let ?r = "(mockTouristData ! 0)\<lparr>TouristRecord.status := JUndefined\<rparr>"
  let ?data = "[?r, mockTouristData ! 1]"
  let ?a = "(mockAlerts ! 0)\<lparr>Alert.priority := JString ''urgent''\<rparr>"
  have c: "\<forall>x\<in>set ?data. conforms x"
    by (simp add: mockTouristData_def conforms_def)
  have m: "?r \<in> set ?data"
    by simp
  have s: "TouristRecord.status ?r \<notin> JString ` set TouristStatus"
    by auto
  have sf: "''active'' \<in> set TouristStatus"
    by (simp add: TouristStatus_def)
  from unrecognised_enum_value [OF c m s, of "[]" "''active''" "''all''" "[?a]" "''all''" "''high''"] sf
  have ex: "\<exists>shown. filteredData ?data [] ''active'' ''all'' = Inr shown \<and> ?r \<notin> set shown"
    by blast
  have e1: "filteredData ?data [] ''active'' ''all'' = Inr [mockTouristData ! 1]"
    by code_simp
  have e2: "filteredData ?data [] ''all'' ''all'' = Inr ?data"
    by code_simp
  have p: "JString ''urgent'' \<notin> JString ` set Priority"
    by (auto simp: Priority_def)
  have a1: "filteredAlerts [?a] ''all'' ''high'' = []"
    by (simp add: filteredAlerts_def mockAlerts_def)
  have a2: "filteredAlerts [?a] ''active'' ''all'' = [?a]"
    by (simp add: filteredAlerts_def mockAlerts_def)
  have u: "JUndefined \<notin> JString ` set TouristStatus"
    by auto
  from c have l: "list_all conforms ?data"
    by (simp add: list_all_iff)
  from l u ex e1 e2 p a1 a2 show ?thesis
    by (intro conjI)
qed

section \<open>Badge lookup\<close>

text \<open>
  C8. The badge lookups return a value for every string, and the treatment of a
  recognised value. An unrecognised string that names a property of \<^verbatim>\<open>Object.prototype\<close>
  does not fall back to the default: at \<^verbatim>\<open>"constructor"\<close> each of the five lookups
  returns the inherited member instead of its default treatment, while a string such as
  \<^verbatim>\<open>"lost"\<close> gets the default.
\<close>

theorem badge_lookup_inherited_key:
  "DigitalIds_getStatusBadge ''constructor'' = PrototypeMember ''constructor'' \<and>
   Alerts_getStatusBadge ''constructor'' = PrototypeMember ''constructor'' \<and>
   Alerts_getPriorityBadge ''constructor'' = PrototypeMember ''constructor'' \<and>
   EFir_getStatusBadge ''constructor'' = PrototypeMember ''constructor'' \<and>
   EFir_getPriorityBadge ''constructor'' = PrototypeMember ''constructor'' \<and>
   ''constructor'' \<notin> set TouristStatus \<union> set AlertStatus \<union> set CaseStatus \<union> set Priority \<and>
   DigitalIds_getStatusBadge ''lost'' =
     Treatment \<lparr> variant = ''default'', className = ''bg-success text-success-foreground'' \<rparr>"
  by (simp add: DigitalIds_getStatusBadge_def Alerts_getStatusBadge_def
        Alerts_getPriorityBadge_def EFir_getStatusBadge_def EFir_getPriorityBadge_def
        getProperty_def or_else_def ObjectPrototype_keys_def DigitalIds_variants_def
        Alerts_status_variants_def Alerts_priority_variants_def EFir_status_variants_def
        EFir_priority_variants_def TouristStatus_def AlertStatus_def CaseStatus_def Priority_def)

section \<open>The generated FIR number\<close>

text \<open>
  C9. The number that \<^verbatim>\<open>handleSubmit\<close> generates is \<^verbatim>\<open>"FIR-2024-"\<close> followed by the
  length of the case collection plus one, padded with zeros to three digits. It depends on
  the length of the collection only: not on the form or any other part of the state, so a
  second submission generates the same number again. For a collection of two cases, as
  the sample collection is, it is \<^verbatim>\<open>"FIR-2024-003"\<close>.
\<close>

theorem fir_number_format:
  "generatedFIRNumber (fst (handleSubmit cases st)) =
     ''FIR-2024-'' @ padStart 3 (CHR ''0'') (Number_toString (length cases + 1)) \<and>
   (length cases + 1 < 1000 \<longrightarrow>
      generatedFIRNumber (fst (handleSubmit cases st)) =
        ''FIR-2024-'' @ [digitChar ((length cases + 1) div 100),
                         digitChar ((length cases + 1) div 10 mod 10),
                         digitChar ((length cases + 1) mod 10)]) \<and>
   (length cases = length cases' \<longrightarrow>
      generatedFIRNumber (fst (handleSubmit cases st)) =
      generatedFIRNumber (fst (handleSubmit cases' st'))) \<and>
   (length cases = 2 \<longrightarrow> generatedFIRNumber (fst (handleSubmit cases st)) = ''FIR-2024-003'') \<and>
   generatedFIRNumber (fst (handleSubmit mockEFIRCases st)) = ''FIR-2024-003'' \<and>
   generatedFIRNumber (fst (handleSubmit cases (fst (handleSubmit cases st)))) =
     generatedFIRNumber (fst (handleSubmit cases st)) \<and>
   Toast.description (snd (handleSubmit cases st)) =
     ''FIR Number: '' @ generatedFIRNumber (fst (handleSubmit cases st))"
proof -
  have three: "padStart 3 (CHR ''0'') (Number_toString (Suc 2)) = ''003''"
    using padStart_three [of "Suc 2"] by (simp add: digitChar_def)
  have len: "length mockEFIRCases = 2"
    by (simp add: mockEFIRCases_def)
  show ?thesis
    using three len by (simp add: handleSubmit_def firNumber_of_def Let_def padStart_three)
qed

text \<open>
  Two submissions on the sample collection, the second with a filled form and on the
  reversed collection: both generate \<^verbatim>\<open>"FIR-2024-003"\<close>.
\<close>

theorem fir_number_format_witness:
  "length mockEFIRCases + 1 < 1000 \<and>
   length mockEFIRCases = length (rev mockEFIRCases) \<and>
   length mockEFIRCases = 2 \<and>
   generatedFIRNumber
     (fst (handleSubmit mockEFIRCases
        \<lparr> isFormOpen = True, isConfirmationOpen = False, generatedFIRNumber = [],
          statusFilter = ''all'', formData = emptyForm \<rparr>)) = ''FIR-2024-003'' \<and>
   generatedFIRNumber
     (fst (handleSubmit (rev mockEFIRCases)
        \<lparr> isFormOpen = True, isConfirmationOpen = False, generatedFIRNumber = ''FIR-2024-003'',
          statusFilter = ''resolved'',
          formData = emptyForm \<lparr> NewEFIRForm.touristId := ''TID-2024-009'',
                                  reporterName := ''A. Singh'' \<rparr> \<rparr>)) = ''FIR-2024-003''"
proof -
  let ?st = "\<lparr> isFormOpen = True, isConfirmationOpen = False, generatedFIRNumber = [],
         statusFilter = ''all'', formData = emptyForm \<rparr>"
  let ?st' = "\<lparr> isFormOpen = True, isConfirmationOpen = False,
         generatedFIRNumber = ''FIR-2024-003'', statusFilter = ''resolved'',
         formData = emptyForm \<lparr> NewEFIRForm.touristId := ''TID-2024-009'',
                                 reporterName := ''A. Singh'' \<rparr> \<rparr>"
  note fmt = fir_number_format [of mockEFIRCases ?st "rev mockEFIRCases" ?st']
  have len: "length mockEFIRCases = 2"
    by (simp add: mockEFIRCases_def)
  then have small: "length mockEFIRCases + 1 < 1000"
    by simp
  have same: "length mockEFIRCases = length (rev mockEFIRCases)"
    by simp
  from fmt have first: "generatedFIRNumber (fst (handleSubmit mockEFIRCases ?st)) = ''FIR-2024-003''"
    by blast
  from fmt same
  have "generatedFIRNumber (fst (handleSubmit mockEFIRCases ?st)) =
        generatedFIRNumber (fst (handleSubmit (rev mockEFIRCases) ?st'))"
    by blast
  with first
  have second: "generatedFIRNumber (fst (handleSubmit (rev mockEFIRCases) ?st')) = ''FIR-2024-003''"
    by simp
  from small same len first second show ?thesis
    by (intro conjI)
qed

end
